theory Spec2Isabelle
  imports Complex_Main
begin

section \<open>Python values used by \<open>plurals/agent.py\<close>\<close>

text \<open>
  A Python \<open>str\<close> is modelled as a \<^typ>\<open>string\<close>, one \<^typ>\<open>char\<close> per code point; the
  model therefore covers the code points below 256. An \<open>Optional[str]\<close> is a
  \<^typ>\<open>string option\<close>.
\<close>

text \<open>\<open>str.isspace\<close> on one code point below 256: the characters \<open>str.strip()\<close> removes.\<close>

definition isspace :: "char \<Rightarrow> bool" where
  "isspace c =
     (let n = (of_char c :: nat)
      in (9 \<le> n \<and> n \<le> 13) \<or> (28 \<le> n \<and> n \<le> 32) \<or> n = 133 \<or> n = 160)"

text \<open>\<open>s.strip()\<close>: leading and trailing whitespace removed.\<close>

definition strip :: "string \<Rightarrow> string" where
  "strip s = rev (dropWhile isspace (rev (dropWhile isspace s)))"

text \<open>\<open>s.lower()\<close>, code point by code point (below 256 the mapping keeps the length).\<close>

definition lower_char :: "char \<Rightarrow> char" where
  "lower_char c =
     (let n = (of_char c :: nat)
      in if (65 \<le> n \<and> n \<le> 90) \<or> (192 \<le> n \<and> n \<le> 222 \<and> n \<noteq> 215)
         then char_of (n + 32) else c)"

definition lower :: "string \<Rightarrow> string" where
  "lower s = map lower_char s"

text \<open>\<open>str(x)\<close> and \<open>f"{x}"\<close> of an \<open>Optional[str]\<close>: \<open>None\<close> prints as \<open>None\<close>.\<close>

fun str_of :: "string option \<Rightarrow> string" where
  "str_of None = ''None''"
| "str_of (Some s) = s"

text \<open>\<open>bool(x)\<close> of an \<open>Optional[str]\<close>: \<open>None\<close> and the empty string are false.\<close>

fun truthy :: "string option \<Rightarrow> bool" where
  "truthy None = False"
| "truthy (Some s) = (s \<noteq> [])"

text \<open>\<open>s.startswith(p)\<close> and \<open>sub in s\<close>.\<close>

fun startswith :: "string \<Rightarrow> string \<Rightarrow> bool" where
  "startswith s [] = True"
| "startswith [] (p # ps) = False"
| "startswith (c # cs) (p # ps) = (c = p \<and> startswith cs ps)"

fun str_contains :: "string \<Rightarrow> string \<Rightarrow> bool" where
  "str_contains sub [] = (sub = [])"
| "str_contains sub (c # cs) = (startswith (c # cs) sub \<or> str_contains sub cs)"

subsection \<open>Exceptions\<close>

text \<open>
  Every \<open>raise\<close> and \<open>assert\<close> of the source is a value. The first six constructors are
  the \<open>AssertionError\<close>s of \<open>agent.py\<close>, one per message; \<open>FilterAssertion e\<close> is the
  \<open>AssertionError\<close> that \<open>_filter_data_by_ideology\<close> raises from a caught exception \<open>e\<close>.
  \<open>Raised msg\<close> is an exception coming out of an external collaborator, with its text.
\<close>

datatype error =
    TemplateAssertion
  | DataMappingAssertion
  | OnlyOneAssertion
  | IdeologyAssertion
  | NoDataAssertion
  | FilterAssertion error
  | KeyError string
  | AttributeError
  | TypeError
  | ValueError
  | Raised string

fun is_AssertionError :: "error \<Rightarrow> bool" where
  "is_AssertionError TemplateAssertion = True"
| "is_AssertionError DataMappingAssertion = True"
| "is_AssertionError OnlyOneAssertion = True"
| "is_AssertionError IdeologyAssertion = True"
| "is_AssertionError NoDataAssertion = True"
| "is_AssertionError (FilterAssertion e) = True"
| "is_AssertionError e = False"

section \<open>The ANES dataset\<close>

text \<open>
  A cell of the data frame: a string, an integer, a finite float (as the real number it
  denotes) or the missing value \<open>NaN\<close>. A row (a pandas \<open>Series\<close>) is its index with the values, a data
  frame its column names and its rows.
\<close>

datatype cell = CStr string | CInt int | CFloat real | CNaN

type_synonym series = "(string \<times> cell) list"

record dataframe =
  columns :: "string list"
  rows :: "series list"

text \<open>The value of a row in a column of its frame.\<close>

definition cell_at :: "series \<Rightarrow> string \<Rightarrow> cell" where
  "cell_at r c = (case map_of r c of Some v \<Rightarrow> v | None \<Rightarrow> CNaN)"

text \<open>\<open>row[c] = v\<close>: the value is replaced in place, a new label is appended.\<close>

fun set_item :: "string \<Rightarrow> cell \<Rightarrow> series \<Rightarrow> series" where
  "set_item k v [] = [(k, v)]"
| "set_item k v (p # ps) = (if fst p = k then (k, v) # ps else p # set_item k v ps)"

text \<open>\<open>df.empty\<close>: an axis of length 0.\<close>

definition empty :: "dataframe \<Rightarrow> bool" where
  "empty df = (rows df = [] \<or> columns df = [])"

text \<open>\<open>pd.DataFrame()\<close>\<close>

definition DataFrame :: dataframe where
  "DataFrame = \<lparr>columns = [], rows = []\<rparr>"

text \<open>\<open>DATASET.dropna(subset=['weight'], inplace=True)\<close>\<close>

definition dropna_weight :: "dataframe \<Rightarrow> error + dataframe" where
  "dropna_weight df =
     (if ''weight'' \<notin> set (columns df) then Inl (KeyError ''weight'')
      else Inr (df\<lparr>rows := filter (\<lambda>r. cell_at r ''weight'' \<noteq> CNaN) (rows df)\<rparr>))"

text \<open>
  \<open>DATASET['age'] = 2024 - DATASET['birthyr']\<close>. The pandas expression on the column
  is the parameter \<open>rsub\<close>: it raises, or returns the new column. Its arithmetic is
  that of numpy (64-bit integers that wrap around, floats that round) and is not
  modelled here. Values of another length than the frame cannot be assigned.
\<close>

definition set_age :: "(cell list \<Rightarrow> string + cell list) \<Rightarrow> dataframe \<Rightarrow> error + dataframe" where
  "set_age rsub df =
     (if ''birthyr'' \<notin> set (columns df) then Inl (KeyError ''birthyr'')
      else
        (case rsub (map (\<lambda>r. cell_at r ''birthyr'') (rows df)) of
           Inl msg \<Rightarrow> Inl (Raised msg)
         | Inr age \<Rightarrow>
             if length age \<noteq> length (rows df) then Inl ValueError
             else
               Inr \<lparr>columns = (if ''age'' \<in> set (columns df) then columns df
                               else columns df @ [''age'']),
                    rows = map2 (set_item ''age'') age (rows df)\<rparr>))"

text \<open>
  \<open>_load_global_anes_data\<close>, from the frame that \<open>pd.read_csv\<close> returns to the global
  \<open>DATASET\<close>.
\<close>

definition load_global_anes_data ::
  "(cell list \<Rightarrow> string + cell list) \<Rightarrow> dataframe \<Rightarrow> error + dataframe" where
  "load_global_anes_data rsub csv =
     (case dropna_weight csv of
        Inl e \<Rightarrow> Inl e
      | Inr df \<Rightarrow> set_age rsub df)"

text \<open>The weight of a row is a number above 0.\<close>

fun positive :: "cell \<Rightarrow> bool" where
  "positive (CInt i) = (0 < i)"
| "positive (CFloat x) = (0 < x)"
| "positive c = False"

text \<open>
  \<open>self.data[self.data['ideo5'].isin(vals)]\<close> inside the \<open>try\<close> of
  \<open>_filter_data_by_ideology\<close>; \<open>self.data['ideo5'] == v\<close> is the case of one value.
  An exception is re-raised as an \<open>AssertionError\<close>.
\<close>

definition ideo5_isin :: "dataframe option \<Rightarrow> string list \<Rightarrow> error + dataframe" where
  "ideo5_isin data vals =
     (case data of
        None \<Rightarrow> Inl (FilterAssertion TypeError)
      | Some df \<Rightarrow>
          if ''ideo5'' \<notin> set (columns df) then Inl (FilterAssertion (KeyError ''ideo5''))
          else Inr (df\<lparr>rows := filter (\<lambda>r. cell_at r ''ideo5'' \<in> set (map CStr vals)) (rows df)\<rparr>))"

text \<open>\<open>Agent._filter_data_by_ideology\<close>\<close>

definition filter_data_by_ideology :: "dataframe option \<Rightarrow> string \<Rightarrow> error + dataframe" where
  "filter_data_by_ideology data ideology =
     (if lower ideology = ''liberal'' then ideo5_isin data [''Liberal'', ''Very liberal'']
      else if lower ideology = ''conservative''
        then ideo5_isin data [''Conservative'', ''Very conservative'']
      else if lower ideology = ''moderate'' then ideo5_isin data [''Moderate'']
      else if lower ideology = ''very liberal'' then ideo5_isin data [''Very liberal'']
      else if lower ideology = ''very conservative'' then ideo5_isin data [''Very conservative'']
      else Inr DataFrame)"

text \<open>The \<open>allowed_vals\<close> of \<open>_validate_system_instructions\<close>.\<close>

definition allowed_vals :: "string list" where
  "allowed_vals = [''liberal'', ''conservative'', ''moderate'', ''very liberal'', ''very conservative'']"

section \<open>The agent\<close>

subsection \<open>State and collaborators\<close>

text \<open>One entry of the persona mapping (\<open>anes-mapping.yaml\<close>).\<close>

record details =
  name :: string
  bad_vals :: "string list option"
  recode_vals :: "(string \<times> string) list option"

text \<open>A message of the completion call: its role and its content.\<close>

type_synonym message = "string \<times> string option"

text \<open>
  One entry of \<open>_history\<close>: \<open>{'prompts': {'system': .., 'user': ..}, 'response': ..,
  'model': ..}\<close>.
\<close>

record entry =
  prompts_system :: "string option"
  prompts_user :: "string option"
  response :: "string option"
  response_model :: string

text \<open>
  What the agent calls outside this file, as parameters of the model:
  \<^item> \<open>completion\<close> of litellm: it raises, or returns a response, here the \<open>message.content\<close>
    of each of its \<open>choices\<close>;
  \<^item> \<open>format\<close>: \<open>SmartString(template).format(**kwargs)\<close> of \<open>plurals/helpers.py\<close>;
  \<^item> \<open>query\<close>: \<open>DataFrame.query\<close>;
  \<^item> \<open>sample\<close>: \<open>df.sample(n=1, weights=df['weight']).iloc[0]\<close>, one function for each
    outcome of the random draw;
  \<^item> \<open>py_str\<close> and \<open>py_int\<close>: \<open>str(value)\<close> and \<open>int(value)\<close> on a cell.
  Where a collaborator can raise, it returns the text of its exception on the left.
\<close>

record 'v externals =
  completion :: "string \<Rightarrow> message list \<Rightarrow> (string \<times> 'v) list \<Rightarrow> string + string option list"
  format :: "string \<Rightarrow> (string \<times> string option) list \<Rightarrow> string"
  query :: "dataframe \<Rightarrow> string \<Rightarrow> string + dataframe"
  sample :: "dataframe \<Rightarrow> string + series"
  py_str :: "cell \<Rightarrow> string"
  py_int :: "cell \<Rightarrow> string + cell"

text \<open>
  The attributes of an \<open>Agent\<close>. \<open>history\<close> is \<open>_history\<close>; \<open>defaults\<close> is the
  \<open>persona_template\<close> section of \<open>DEFAULTS\<close> (\<open>instructions.yaml\<close>).
\<close>

record 'v agent =
  model :: string
  system_instructions :: "string option"
  combination_instructions :: "string option"
  history :: "entry list"
  persona_mapping :: "(string \<times> details) list option"
  task_description :: "string option"
  persona :: "string option"
  ideology :: "string option"
  data :: "dataframe option"
  query_str :: "string option"
  original_task_description :: "string option"
  current_task_description :: "string option"
  defaults :: "(string \<times> string) list"
  persona_template :: "string option"
  kwargs :: "(string \<times> 'v) list"

subsection \<open>Validation\<close>

text \<open>\<open>Agent._validate_templates\<close>\<close>

definition validate_templates :: "'v agent \<Rightarrow> error + unit" where
  "validate_templates a =
     (case persona_template a of
        None \<Rightarrow> Inr ()
      | Some t \<Rightarrow>
          if t = [] then Inr ()
          else if str_contains ''${persona}'' t \<or> t \<in> set (map fst (defaults a)) then Inr ()
          else Inl TemplateAssertion)"

text \<open>
  \<open>sum([bool(self.ideology), bool(self.query_str), bool(self.persona),
  bool(self.system_instructions)])\<close>
\<close>

definition selectors :: "'v agent \<Rightarrow> nat" where
  "selectors a =
     sum_list (map of_bool [truthy (ideology a), truthy (query_str a), truthy (persona a),
                            truthy (system_instructions a)])"

text \<open>\<open>Agent._validate_system_instructions\<close>\<close>

definition validate_system_instructions :: "'v agent \<Rightarrow> error + unit" where
  "validate_system_instructions a =
     (if (truthy (ideology a) \<or> truthy (query_str a))
         \<and> (data a = None \<or> persona_mapping a = None)
      then Inl DataMappingAssertion
      else if selectors a > 1 then Inl OnlyOneAssertion
      else if truthy (ideology a) \<and> str_of (ideology a) \<notin> set allowed_vals
      then Inl IdeologyAssertion
      else Inr ())"

subsection \<open>Personas\<close>

text \<open>\<open>" ".join(persona)\<close>\<close>

fun join :: "string \<Rightarrow> string list \<Rightarrow> string" where
  "join sep [] = []"
| "join sep [x] = x"
| "join sep (x # y # ys) = x @ sep @ join sep (y # ys)"

text \<open>The clauses that the loop of \<open>Agent._row2persona\<close> collects.\<close>

fun row2persona_clauses ::
  "'v externals \<Rightarrow> series \<Rightarrow> (string \<times> details) list \<Rightarrow> error + string list" where
  "row2persona_clauses ext row [] = Inr []"
| "row2persona_clauses ext row ((var, d) # rest) =
     (case map_of row var of
        None \<Rightarrow> row2persona_clauses ext row rest
      | Some raw \<Rightarrow>
          (case (if var = ''age'' then py_int ext raw else Inr raw) of
             Inl msg \<Rightarrow> Inl (Raised msg)
           | Inr v \<Rightarrow>
               if v = CNaN
                  \<or> (case bad_vals d of None \<Rightarrow> False
                      | Some bad \<Rightarrow> bad \<noteq> [] \<and> py_str ext v \<in> set bad)
               then row2persona_clauses ext row rest
               else
                 (let text =
                        (case recode_vals d of
                           None \<Rightarrow> py_str ext v
                         | Some rc \<Rightarrow>
                             (case map_of rc (py_str ext v) of
                                None \<Rightarrow> py_str ext v
                              | Some w \<Rightarrow> w))
                  in case row2persona_clauses ext row rest of
                       Inl e \<Rightarrow> Inl e
                     | Inr cs \<Rightarrow> Inr ((name d @ '' '' @ lower text @ ''.'') # cs))))"

text \<open>\<open>Agent._row2persona\<close>; without a mapping, \<open>persona_mapping.items()\<close> fails.\<close>

definition row2persona ::
  "'v externals \<Rightarrow> series \<Rightarrow> (string \<times> details) list option \<Rightarrow> error + string" where
  "row2persona ext row mapping =
     (case mapping of
        None \<Rightarrow> Inl AttributeError
      | Some m \<Rightarrow>
          (case row2persona_clauses ext row m of
             Inl e \<Rightarrow> Inl e
           | Inr cs \<Rightarrow> Inr (join '' '' cs)))"

text \<open>
  \<open>df.sample(n=1, weights=df['weight']).iloc[0]\<close> followed by \<open>_row2persona\<close>: the
  \<open>weight\<close> column is read first.
\<close>

definition sample_persona ::
  "'v externals \<Rightarrow> dataframe \<Rightarrow> (string \<times> details) list option \<Rightarrow> error + string" where
  "sample_persona ext df mapping =
     (if ''weight'' \<notin> set (columns df) then Inl (KeyError ''weight'')
      else
        (case sample ext df of
           Inl msg \<Rightarrow> Inl (Raised msg)
         | Inr row \<Rightarrow> row2persona ext row mapping))"

text \<open>\<open>Agent._get_random_persona\<close>\<close>

definition get_random_persona ::
  "'v externals \<Rightarrow> 'v agent \<Rightarrow> dataframe option \<Rightarrow> error + string" where
  "get_random_persona ext a d =
     (case d of
        None \<Rightarrow> Inl AttributeError
      | Some df \<Rightarrow> sample_persona ext df (persona_mapping a))"

text \<open>
  \<open>Agent._generate_persona\<close>: the persona it returns (\<open>None\<close> when the body falls
  through) and the agent with \<open>persona_template\<close> assigned.
\<close>

definition generate_persona ::
  "'v externals \<Rightarrow> 'v agent \<Rightarrow> error + (string option \<times> 'v agent)" where
  "generate_persona ext a =
     (let a' = a\<lparr>persona_template := map_of (defaults a) ''anes''\<rparr>
      in if persona a' = Some ''random''
         then (case get_random_persona ext a' (data a') of
                 Inl e \<Rightarrow> Inl e
               | Inr p \<Rightarrow> Inr (Some p, a'))
         else if truthy (ideology a')
         then (case filter_data_by_ideology (data a') (str_of (ideology a')) of
                 Inl e \<Rightarrow> Inl e
               | Inr filtered_data \<Rightarrow>
                   if empty filtered_data then Inl NoDataAssertion
                   else (case sample_persona ext filtered_data (persona_mapping a') of
                           Inl e \<Rightarrow> Inl e
                         | Inr p \<Rightarrow> Inr (Some p, a')))
         else if truthy (query_str a')
         then (case data a' of
                 None \<Rightarrow> Inl AttributeError
               | Some df \<Rightarrow>
                   (case query ext df (str_of (query_str a')) of
                      Inl msg \<Rightarrow> Inl (Raised msg)
                    | Inr filtered_data \<Rightarrow>
                        if empty filtered_data then Inl NoDataAssertion
                        else (case sample_persona ext filtered_data (persona_mapping a') of
                                Inl e \<Rightarrow> Inl e
                              | Inr p \<Rightarrow> Inr (Some p, a'))))
         else Inr (None, a'))"

text \<open>\<open>self.persona = self._generate_persona()\<close>\<close>

definition assign_persona :: "'v externals \<Rightarrow> 'v agent \<Rightarrow> error + 'v agent" where
  "assign_persona ext a =
     (case generate_persona ext a of
        Inl e \<Rightarrow> Inl e
      | Inr (p, a') \<Rightarrow> Inr (a'\<lparr>persona := p\<rparr>))"

text \<open>
  The end of \<open>_set_system_instructions\<close>: the template is looked up among the presets
  (\<open>dict.get\<close> with the template itself as default), stripped and rendered. Without a
  template, \<open>None.strip()\<close> fails.
\<close>

definition render_system_instructions :: "'v externals \<Rightarrow> 'v agent \<Rightarrow> error + 'v agent" where
  "render_system_instructions ext a =
     (case persona_template a of
        None \<Rightarrow> Inl AttributeError
      | Some t \<Rightarrow>
          (let t' = strip (case map_of (defaults a) t of Some preset \<Rightarrow> preset | None \<Rightarrow> t)
           in Inr (a\<lparr>persona_template := Some t',
                     system_instructions :=
                       Some (strip (format ext t'
                         [(''persona'', persona a), (''task'', task_description a)]))\<rparr>)))"

text \<open>\<open>Agent._set_system_instructions\<close>\<close>

definition set_system_instructions :: "'v externals \<Rightarrow> 'v agent \<Rightarrow> error + 'v agent" where
  "set_system_instructions ext a =
     (if system_instructions a \<noteq> None then Inr a
      else if \<not> truthy (system_instructions a) \<and> \<not> truthy (persona a)
              \<and> \<not> truthy (ideology a) \<and> \<not> truthy (query_str a)
      then Inr (a\<lparr>system_instructions := None\<rparr>)
      else
        (case (if persona a = Some ''random'' then assign_persona ext a else Inr a) of
           Inl e \<Rightarrow> Inl e
         | Inr a1 \<Rightarrow>
             (case (if \<not> truthy (persona a1) then assign_persona ext a1 else Inr a1) of
                Inl e \<Rightarrow> Inl e
              | Inr a2 \<Rightarrow> render_system_instructions ext a2)))"

text \<open>
  \<open>Agent.__init__\<close>, with the globals \<open>PERSONA_MAPPING\<close>, \<open>DATASET\<close> and \<open>DEFAULTS\<close> it
  reads and its arguments in the order of the signature. \<open>attributes\<close> is the agent
  after the assignments that open the constructor (with \<open>kwargs\<close>, assigned last);
  \<open>construct\<close> is the three calls that follow. \<open>init\<close> returns the agent or the exception
  that leaves the constructor.
\<close>

definition attributes ::
  "(string \<times> details) list option \<Rightarrow> dataframe option \<Rightarrow> (string \<times> string) list
   \<Rightarrow> string option \<Rightarrow> string option \<Rightarrow> string option \<Rightarrow> string option \<Rightarrow> string
   \<Rightarrow> string option \<Rightarrow> string option \<Rightarrow> string option \<Rightarrow> (string \<times> 'v) list option
   \<Rightarrow> 'v agent" where
  "attributes PERSONA_MAPPING DATASET DEFAULTS
        task combination_instructions' ideology' query_str' model' system_instructions'
        persona_template' persona' kwargs' =
     \<lparr>model = model',
      system_instructions = system_instructions',
      combination_instructions = combination_instructions',
      history = [],
      persona_mapping = PERSONA_MAPPING,
      task_description = task,
      persona = persona',
      ideology = ideology',
      data = DATASET,
      query_str = query_str',
      original_task_description = task,
      current_task_description = task,
      defaults = DEFAULTS,
      persona_template = persona_template',
      kwargs = (case kwargs' of None \<Rightarrow> [] | Some kw \<Rightarrow> kw)\<rparr>"

definition construct :: "'v externals \<Rightarrow> 'v agent \<Rightarrow> error + 'v agent" where
  "construct ext a =
     (case validate_templates a of
        Inl e \<Rightarrow> Inl e
      | Inr _ \<Rightarrow>
          (case validate_system_instructions a of
             Inl e \<Rightarrow> Inl e
           | Inr _ \<Rightarrow> set_system_instructions ext a))"

definition init ::
  "'v externals \<Rightarrow> (string \<times> details) list option \<Rightarrow> dataframe option \<Rightarrow> (string \<times> string) list
   \<Rightarrow> string option \<Rightarrow> string option \<Rightarrow> string option \<Rightarrow> string option \<Rightarrow> string
   \<Rightarrow> string option \<Rightarrow> string option \<Rightarrow> string option \<Rightarrow> (string \<times> 'v) list option
   \<Rightarrow> error + 'v agent" where
  "init ext PERSONA_MAPPING DATASET DEFAULTS
        task combination_instructions' ideology' query_str' model' system_instructions'
        persona_template' persona' kwargs' =
     construct ext
       (attributes PERSONA_MAPPING DATASET DEFAULTS
          task combination_instructions' ideology' query_str' model' system_instructions'
          persona_template' persona' kwargs')"

subsection \<open>Tasks and responses\<close>

text \<open>\<open>Agent.set_task\<close>\<close>

definition set_task :: "'v agent \<Rightarrow> string \<Rightarrow> 'v agent" where
  "set_task a task =
     a\<lparr>original_task_description := Some task, current_task_description := Some task\<rparr>"

text \<open>\<open>next((msg['content'] for msg in messages if msg['role'] == role), None)\<close>\<close>

fun next_content :: "string \<Rightarrow> message list \<Rightarrow> string option" where
  "next_content role [] = None"
| "next_content role ((r, c) # msgs) = (if r = role then c else next_content role msgs)"

text \<open>The \<open>messages\<close> that \<open>_get_response\<close> builds for a task.\<close>

definition messages :: "'v agent \<Rightarrow> string option \<Rightarrow> message list" where
  "messages a task =
     (if truthy (system_instructions a)
      then [(''system'', system_instructions a), (''user'', task)]
      else [(''user'', task)])"

text \<open>
  \<open>Agent._get_response\<close>: the value returned and the agent afterwards. Every exception
  inside the \<open>try\<close> (the call itself, \<open>choices[0]\<close> on an empty list) ends in the
  handler, which prints and returns \<open>None\<close>.
\<close>

definition get_response ::
  "'v externals \<Rightarrow> 'v agent \<Rightarrow> string option \<Rightarrow> string option \<times> 'v agent" where
  "get_response ext a task =
     (case completion ext (model a) (messages a task) (kwargs a) of
        Inl msg \<Rightarrow> (None, a)
      | Inr [] \<Rightarrow> (None, a)
      | Inr (content # _) \<Rightarrow>
          (content,
           a\<lparr>history := history a @
               [\<lparr>prompts_system = next_content ''system'' (messages a task),
                 prompts_user = next_content ''user'' (messages a task),
                 response = content,
                 response_model = model a\<rparr>]\<rparr>))"

text \<open>
  The first two statements of \<open>Agent.process\<close>: the task argument, then the previous
  responses. The line feed of the f-string is \<open>CHR 0x0A\<close>.
\<close>

definition take_task :: "'v agent \<Rightarrow> string option \<Rightarrow> 'v agent" where
  "take_task a task = (if truthy task then set_task a (str_of task) else a)"

definition incorporate :: "'v externals \<Rightarrow> 'v agent \<Rightarrow> string \<Rightarrow> 'v agent" where
  "incorporate ext a previous_responses =
     (if previous_responses \<noteq> []
      then
        (let combined_responses =
               format ext (str_of (combination_instructions a))
                 [(''previous_responses'', Some previous_responses)]
         in if truthy (current_task_description a)
            then a\<lparr>current_task_description :=
                     Some (strip (str_of (current_task_description a) @ [CHR 0x0A]
                                  @ combined_responses))\<rparr>
            else a\<lparr>current_task_description :=
                     Some (strip (str_of (original_task_description a) @ [CHR 0x0A]
                                  @ combined_responses))\<rparr>)
      else a\<lparr>current_task_description := original_task_description a\<rparr>)"

text \<open>\<open>Agent.process\<close>: the value returned and the agent afterwards.\<close>

definition process ::
  "'v externals \<Rightarrow> 'v agent \<Rightarrow> string option \<Rightarrow> string \<Rightarrow> string option \<times> 'v agent" where
  "process ext a task previous_responses =
     (let a1 = take_task a task;
          a2 = incorporate ext a1 previous_responses
      in get_response ext a2 (current_task_description a2))"

section \<open>Concrete collaborators and data\<close>

text \<open>
  Modelled from the spec: \<open>SmartString.format\<close> of \<open>plurals/helpers.py\<close>, which is not
  among the sources. The spec's template engine replaces each placeholder
  \<open>${name}\<close> that has a value, leaves the others as they are, and trims the result. The
  theorems below hold for every \<open>format\<close>; this one only serves to evaluate the agent on
  concrete inputs.
\<close>

fun substitute :: "nat \<Rightarrow> string \<Rightarrow> string \<Rightarrow> string \<Rightarrow> string" where
  "substitute skip pat rep [] = []"
| "substitute skip pat rep (c # cs) =
     (if skip > 0 then substitute (skip - 1) pat rep cs
      else if startswith (c # cs) pat then rep @ substitute (length pat - 1) pat rep cs
      else c # substitute 0 pat rep cs)"

fun SmartString_format :: "string \<Rightarrow> (string \<times> string option) list \<Rightarrow> string" where
  "SmartString_format t [] = strip t"
| "SmartString_format t ((k, v) # kvs) =
     SmartString_format (substitute 0 (''${'' @ k @ ''}'') (str_of v) t) kvs"

text \<open>
  Collaborators for concrete runs: the completion call has the given outcome, the query
  matches no row, the draw takes the first row of positive weight and fails when there
  is none.
\<close>

definition collaborators :: "string + string option list \<Rightarrow> nat externals" where
  "collaborators outcome =
     \<lparr>completion = (\<lambda>m msgs kw. outcome),
      format = SmartString_format,
      query = (\<lambda>df q. Inr (df\<lparr>rows := []\<rparr>)),
      sample = (\<lambda>df. case filter (\<lambda>r. positive (cell_at r ''weight'')) (rows df) of
                       [] \<Rightarrow> Inl ''ValueError''
                     | r # _ \<Rightarrow> Inr r),
      py_str = (\<lambda>c. case c of CStr s \<Rightarrow> s | _ \<Rightarrow> ''nan''),
      py_int = (\<lambda>c. case c of CInt i \<Rightarrow> Inr (CInt i) | _ \<Rightarrow> Inl ''ValueError'')\<rparr>"

text \<open>
  The column expression \<open>2024 - column\<close> for concrete runs: defined on a column of
  birth years between 0 and 2024, where the subtraction is exact.
\<close>

definition example_rsub :: "cell list \<Rightarrow> string + cell list" where
  "example_rsub column =
     (if list_all (\<lambda>c. case c of CInt i \<Rightarrow> 0 \<le> i \<and> i \<le> 2024 | _ \<Rightarrow> False) column
      then Inr (map (\<lambda>c. case c of CInt i \<Rightarrow> CInt (2024 - i) | _ \<Rightarrow> c) column)
      else Inl ''unsupported'')"

definition example_csv :: dataframe where
  "example_csv =
     \<lparr>columns = [''weight'', ''birthyr'', ''ideo5''],
      rows = [[(''weight'', CFloat 1.5), (''birthyr'', CInt 1980), (''ideo5'', CStr ''Liberal'')],
              [(''weight'', CNaN), (''birthyr'', CInt 1990), (''ideo5'', CStr ''Moderate'')],
              [(''weight'', CFloat 0.5), (''birthyr'', CInt 1975),
               (''ideo5'', CStr ''Very liberal'')]]\<rparr>"

definition example_dataset :: dataframe where
  "example_dataset =
     \<lparr>columns = [''weight'', ''birthyr'', ''ideo5'', ''age''],
      rows = [[(''weight'', CFloat 1.5), (''birthyr'', CInt 1980), (''ideo5'', CStr ''Liberal''),
               (''age'', CInt 44)],
              [(''weight'', CFloat 0.5), (''birthyr'', CInt 1975),
               (''ideo5'', CStr ''Very liberal''), (''age'', CInt 49)]]\<rparr>"

definition example_mapping :: "(string \<times> details) list" where
  "example_mapping =
     [(''ideo5'', \<lparr>name = ''Your ideology is'', bad_vals = None, recode_vals = None\<rparr>)]"

definition example_defaults :: "(string \<times> string) list" where
  "example_defaults =
     [(''default'', ''PERSONA: ${persona}''),
      (''anes'', ''ANES: ${persona}''),
      (''empathetic'', ''EMPATHETIC: ${persona}'')]"

text \<open>\<open>Agent(task=task, combination_instructions="Previous: ${previous_responses}")\<close>\<close>

definition example_agent :: "string option \<Rightarrow> nat agent" where
  "example_agent task =
     attributes (Some example_mapping) (Some example_dataset) example_defaults
       task (Some ''Previous: ${previous_responses}'') None None ''gpt-4o'' None
       (Some ''default'') None None"

text \<open>
  Modelled from the spec: the rows of the shipped file
  \<open>data/anes_pilot_2024_20240319.csv\<close>, which is not among the sources. In the spec a
  PersonaRecord has "a strictly-positive weight", and the rows without one are those
  "excluded at load time": the weight of a row of the file is missing or above 0.
\<close>

definition PersonaRecord :: "series \<Rightarrow> bool" where
  "PersonaRecord r = (cell_at r ''weight'' = CNaN \<or> positive (cell_at r ''weight''))"

text \<open>
  The \<open>ideo5\<close> values of a bucket as the specification words them: the buckets
  \<open>liberal\<close> and \<open>conservative\<close> match the plain value and its "very" sibling, the
  three others match one value each. To be compared with \<open>filter_data_by_ideology\<close>.
\<close>

definition spec_ideo5_values :: "string \<Rightarrow> string list" where
  "spec_ideo5_values bucket =
     (if bucket = ''liberal'' then [''Liberal'', ''Very liberal'']
      else if bucket = ''conservative'' then [''Conservative'', ''Very conservative'']
      else if bucket = ''moderate'' then [''Moderate'']
      else if bucket = ''very liberal'' then [''Very liberal'']
      else if bucket = ''very conservative'' then [''Very conservative'']
      else [])"

section \<open>Properties\<close>

subsection \<open>Auxiliary facts\<close>

lemma lower_allowed_vals:
  "lower ''liberal'' = ''liberal''"
  "lower ''conservative'' = ''conservative''"
  "lower ''moderate'' = ''moderate''"
  "lower ''very liberal'' = ''very liberal''"
  "lower ''very conservative'' = ''very conservative''"
  by (simp_all add: lower_def lower_char_def)

lemma get_response_tasks:
  "original_task_description (snd (get_response ext a t)) = original_task_description a"
  "current_task_description (snd (get_response ext a t)) = current_task_description a"
  by (simp_all add: get_response_def split: sum.splits list.splits)

lemma incorporate_original:
  "original_task_description (incorporate ext a p) = original_task_description a"
  by (simp add: incorporate_def Let_def)

lemma process_task_given:
  "t \<noteq> [] \<Longrightarrow>
   original_task_description (snd (process ext a (Some t) previous_responses)) = Some t"
  by (simp add: process_def take_task_def Let_def get_response_tasks incorporate_original
      set_task_def)

subsection \<open>Filtering by ideology\<close>

text \<open>
  C2. For every valid ideology bucket (a member of \<open>allowed_vals\<close>), filtering a dataset
  that has the \<open>ideo5\<close> column keeps exactly the rows whose \<open>ideo5\<close> value is one of the
  values of the bucket: \<open>Liberal\<close> and \<open>Very liberal\<close> for \<open>liberal\<close>, \<open>Conservative\<close> and
  \<open>Very conservative\<close> for \<open>conservative\<close>, and the single value \<open>Moderate\<close>,
  \<open>Very liberal\<close>, \<open>Very conservative\<close> for the three other buckets.
\<close>

theorem filter_data_by_ideology_matches:
  assumes "bucket \<in> set allowed_vals" and "''ideo5'' \<in> set (columns df)"
  shows "filter_data_by_ideology (Some df) bucket =
         Inr (df\<lparr>rows := filter (\<lambda>r. cell_at r ''ideo5'' \<in> set (map CStr (spec_ideo5_values bucket)))
                              (rows df)\<rparr>)"
proof -
  from assms(1) have "bucket = ''liberal'' \<or> bucket = ''conservative'' \<or> bucket = ''moderate''
      \<or> bucket = ''very liberal'' \<or> bucket = ''very conservative''"
    by (simp add: allowed_vals_def)
  then show ?thesis
  proof (elim disjE)
    assume "bucket = ''liberal''"
    with assms(2) show ?thesis
      by (simp add: filter_data_by_ideology_def lower_allowed_vals ideo5_isin_def
          spec_ideo5_values_def)
  next
    assume "bucket = ''conservative''"
    with assms(2) show ?thesis
      by (simp add: filter_data_by_ideology_def lower_allowed_vals ideo5_isin_def
          spec_ideo5_values_def)
  next
    assume "bucket = ''moderate''"
    with assms(2) show ?thesis
      by (simp add: filter_data_by_ideology_def lower_allowed_vals ideo5_isin_def
          spec_ideo5_values_def)
  next
    assume "bucket = ''very liberal''"
    with assms(2) show ?thesis
      by (simp add: filter_data_by_ideology_def lower_allowed_vals ideo5_isin_def
          spec_ideo5_values_def)
  next
    assume "bucket = ''very conservative''"
    with assms(2) show ?thesis
      by (simp add: filter_data_by_ideology_def lower_allowed_vals ideo5_isin_def
          spec_ideo5_values_def)
  qed
qed

theorem filter_data_by_ideology_matches_witness:
  "filter_data_by_ideology (Some example_dataset) ''liberal'' = Inr example_dataset
   \<and> filter_data_by_ideology (Some example_dataset) ''very liberal''
       = Inr (example_dataset\<lparr>rows := [rows example_dataset ! 1]\<rparr>)
   \<and> filter_data_by_ideology (Some example_dataset) ''moderate''
       = Inr (example_dataset\<lparr>rows := []\<rparr>)"
proof -
  have c: "''ideo5'' \<in> set (columns example_dataset)"
    by (simp add: example_dataset_def)
  have 1: "''liberal'' \<in> set allowed_vals" by (simp add: allowed_vals_def)
  have 2: "''very liberal'' \<in> set allowed_vals" by (simp add: allowed_vals_def)
  have 3: "''moderate'' \<in> set allowed_vals" by (simp add: allowed_vals_def)
  show ?thesis
    using filter_data_by_ideology_matches [OF 1 c] filter_data_by_ideology_matches [OF 2 c]
      filter_data_by_ideology_matches [OF 3 c]
    by (simp add: spec_ideo5_values_def example_dataset_def cell_at_def)
qed

subsection \<open>Tasks\<close>

text \<open>
  C7. For every agent and every task string \<open>t\<close>, \<open>set_task\<close> sets
  \<open>original_task_description\<close> and \<open>current_task_description\<close> to \<open>t\<close> and changes nothing
  else: \<open>persona\<close>, \<open>system_instructions\<close>, the persona template, the selectors, the
  dataset, the mapping and every other attribute keep their values.
\<close>

theorem set_task_frame:
  "original_task_description (set_task a t) = Some t
   \<and> current_task_description (set_task a t) = Some t
   \<and> persona (set_task a t) = persona a
   \<and> system_instructions (set_task a t) = system_instructions a
   \<and> persona_template (set_task a t) = persona_template a
   \<and> ideology (set_task a t) = ideology a
   \<and> query_str (set_task a t) = query_str a
   \<and> persona_mapping (set_task a t) = persona_mapping a
   \<and> data (set_task a t) = data a
   \<and> defaults (set_task a t) = defaults a
   \<and> task_description (set_task a t) = task_description a
   \<and> combination_instructions (set_task a t) = combination_instructions a
   \<and> model (set_task a t) = model a
   \<and> history (set_task a t) = history a
   \<and> kwargs (set_task a t) = kwargs a
   \<and> agent.more (set_task a t) = agent.more a"
  by (simp add: set_task_def)

text \<open>
  C1, as the code has it. With \<open>a1\<close> the agent after the task argument is taken in:
  when \<open>previous_responses\<close> is not empty, the combination instructions are rendered with
  it, the rendered block is appended after a line feed to the current task text (to the
  original task description when the current one is \<open>None\<close> or empty), and the whole is
  stripped of leading and trailing whitespace; when \<open>previous_responses\<close> is empty, the
  current task description is the original one, and it is what the model receives.
\<close>

theorem process_task_text:
  assumes "a1 = (if truthy task then set_task a (str_of task) else a)"
  shows "(previous_responses \<noteq> [] \<longrightarrow>
            current_task_description (snd (process ext a task previous_responses))
            = Some (strip ((if truthy (current_task_description a1)
                            then str_of (current_task_description a1)
                            else str_of (original_task_description a1))
                           @ [CHR 0x0A]
                           @ format ext (str_of (combination_instructions a))
                               [(''previous_responses'', Some previous_responses)])))
       \<and> (previous_responses = [] \<longrightarrow>
            current_task_description (snd (process ext a task previous_responses))
            = original_task_description a1
            \<and> process ext a task previous_responses
              = get_response ext
                  (a1\<lparr>current_task_description := original_task_description a1\<rparr>)
                  (original_task_description a1))"
  using assms
  by (simp add: process_def Let_def take_task_def incorporate_def get_response_tasks set_task_def)

theorem process_task_text_witness:
  "current_task_description
     (snd (process (collaborators (Inr [Some ''ok''])) (example_agent (Some '' a'')) None ''x''))
   = Some (''a'' @ [CHR 0x0A] @ ''Previous: x'')
   \<and> current_task_description
     (snd (process (collaborators (Inr [Some ''ok''])) (example_agent (Some ''a''))
        (Some ''b'') ''''))
   = Some ''b''"
proof -
  have f: "format (collaborators (Inr [Some ''ok''])) ''Previous: ${previous_responses}''
             [(''previous_responses'', Some ''x'')] = ''Previous: x''"
    by (simp add: collaborators_def strip_def isspace_def)
  have 1: "current_task_description
     (snd (process (collaborators (Inr [Some ''ok''])) (example_agent (Some '' a'')) None ''x''))
   = Some (''a'' @ [CHR 0x0A] @ ''Previous: x'')"
    using process_task_text [OF refl, of "''x''" "collaborators (Inr [Some ''ok''])"
      "example_agent (Some '' a'')" None]
    by (simp add: f example_agent_def attributes_def strip_def isspace_def)
  have 2: "current_task_description
     (snd (process (collaborators (Inr [Some ''ok''])) (example_agent (Some ''a''))
        (Some ''b'') ''''))
   = Some ''b''"
    using process_task_text [OF refl, of "''''" "collaborators (Inr [Some ''ok''])"
      "example_agent (Some ''a'')" "Some ''b''"]
    by (simp add: set_task_def get_response_tasks)
  from 1 2 show ?thesis by (rule conjI)
qed

text \<open>
  C1 as stated fails: for a task that begins with a space the new current task is not
  the current task text followed by a line feed and the rendered block, since the
  result is stripped.
\<close>

theorem process_appends_counterexample:
  "current_task_description
     (snd (process (collaborators (Inr [Some ''ok''])) (example_agent (Some '' a'')) None ''x''))
   \<noteq> Some (str_of (current_task_description (example_agent (Some '' a'') :: nat agent))
           @ [CHR 0x0A]
           @ format (collaborators (Inr [Some ''ok'']))
               (str_of (combination_instructions (example_agent (Some '' a'') :: nat agent)))
               [(''previous_responses'', Some ''x'')])"
  by (simp add: process_def Let_def take_task_def incorporate_def get_response_tasks
      example_agent_def attributes_def collaborators_def strip_def isspace_def)

lemma get_response_result:
  "get_response ext a t =
     (case completion ext (model a) (messages a t) (kwargs a) of
        Inl msg \<Rightarrow> (None, a)
      | Inr [] \<Rightarrow> (None, a)
      | Inr (content # rest) \<Rightarrow>
          (content,
           a\<lparr>history := history a @
               [\<lparr>prompts_system = next_content ''system'' (messages a t),
                 prompts_user = next_content ''user'' (messages a t),
                 response = content,
                 response_model = model a\<rparr>]\<rparr>))"
  by (simp add: get_response_def split: sum.splits list.splits)

text \<open>
  C10, as the code has it. \<open>process\<close> with the empty string as task does not take the
  argument as the task: it behaves as \<open>process\<close> without a task and
  \<open>original_task_description\<close> keeps its value. \<open>current_task_description\<close> is
  overwritten all the same, as in every call, by the text \<open>stored\<close> computed from the
  stored descriptions: the original description when \<open>previous_responses\<close> is empty,
  otherwise the stripped text of the current description (the original one when the
  current one is \<open>None\<close> or empty), a line feed and the rendered combination
  instructions. The model is called with that text, and its outcome decides the value
  returned and the history.
\<close>

theorem process_empty_task:
  assumes "stored =
           (if previous_responses = [] then original_task_description a
            else Some (strip ((if truthy (current_task_description a)
                               then str_of (current_task_description a)
                               else str_of (original_task_description a))
                              @ [CHR 0x0A]
                              @ format ext (str_of (combination_instructions a))
                                  [(''previous_responses'', Some previous_responses)])))"
    and "outcome = completion ext (model a) (messages a stored) (kwargs a)"
  shows "process ext a (Some '''') previous_responses = process ext a None previous_responses
       \<and> original_task_description (snd (process ext a (Some '''') previous_responses))
           = original_task_description a
       \<and> current_task_description (snd (process ext a (Some '''') previous_responses))
           = stored
       \<and> fst (process ext a (Some '''') previous_responses)
           = (case outcome of Inl msg \<Rightarrow> None | Inr [] \<Rightarrow> None
              | Inr (content # rest) \<Rightarrow> content)
       \<and> history (snd (process ext a (Some '''') previous_responses))
           = (case outcome of
                Inl msg \<Rightarrow> history a
              | Inr [] \<Rightarrow> history a
              | Inr (content # rest) \<Rightarrow>
                  history a @
                  [\<lparr>prompts_system = next_content ''system'' (messages a stored),
                    prompts_user = stored,
                    response = content,
                    response_model = model a\<rparr>])"
proof -
  let ?a2 = "incorporate ext a previous_responses"
  have cur: "current_task_description ?a2 = stored"
    using assms(1) by (simp add: incorporate_def Let_def)
  have same: "model ?a2 = model a" "kwargs ?a2 = kwargs a" "history ?a2 = history a"
    "messages ?a2 t = messages a t" "original_task_description ?a2 = original_task_description a"
    for t
    by (simp_all add: incorporate_def Let_def messages_def)
  have user: "next_content ''user'' (messages a stored) = stored"
    by (simp add: messages_def)
  have p: "process ext a (Some '''') previous_responses = get_response ext ?a2 stored"
    by (simp add: process_def take_task_def Let_def cur)
  have q: "process ext a None previous_responses = get_response ext ?a2 stored"
    by (simp add: process_def take_task_def Let_def cur)
  show ?thesis
    unfolding p q get_response_result same assms(2)
    by (simp add: cur same user split: sum.splits list.splits)
qed

theorem process_empty_task_witness:
  "current_task_description
     (snd (process (collaborators (Inr [Some ''Hello!'']))
        ((example_agent (Some ''T''))
           \<lparr>current_task_description := Some (''T'' @ [CHR 0x0A] @ ''Previous: x'')\<rparr>)
        (Some '''') ''''))
   = Some ''T''
   \<and> fst (process (collaborators (Inr [Some ''Hello!'']))
        ((example_agent (Some ''T''))
           \<lparr>current_task_description := Some (''T'' @ [CHR 0x0A] @ ''Previous: x'')\<rparr>)
        (Some '''') '''')
   = Some ''Hello!''
   \<and> map prompts_user (history (snd (process (collaborators (Inr [Some ''Hello!'']))
        ((example_agent (Some ''T''))
           \<lparr>current_task_description := Some (''T'' @ [CHR 0x0A] @ ''Previous: x'')\<rparr>)
        (Some '''') '''')))
   = [Some ''T'']"
proof -
  let ?ext = "collaborators (Inr [Some ''Hello!'']) :: nat externals"
  let ?a = "(example_agent (Some ''T''))
           \<lparr>current_task_description := Some (''T'' @ [CHR 0x0A] @ ''Previous: x'')\<rparr>"
  have o: "original_task_description ?a = Some ''T''" "history ?a = []"
    by (simp_all add: example_agent_def attributes_def)
  have c: "completion ?ext m ms kw = Inr [Some ''Hello!'']" for m ms kw
    by (simp add: collaborators_def)
  note t = process_empty_task [OF refl refl, where previous_responses = "''''"
      and a = ?a and ext = ?ext]
  have 1: "current_task_description (snd (process ?ext ?a (Some '''') '''')) = Some ''T''"
    using t [THEN conjunct2, THEN conjunct2, THEN conjunct1] o by simp
  have 2: "fst (process ?ext ?a (Some '''') '''') = Some ''Hello!''"
    using t [THEN conjunct2, THEN conjunct2, THEN conjunct2, THEN conjunct1] by (simp add: c)
  have 3: "map prompts_user (history (snd (process ?ext ?a (Some '''') ''''))) = [Some ''T'']"
    using t [THEN conjunct2, THEN conjunct2, THEN conjunct2, THEN conjunct2] o
    by (simp add: c)
  from 1 2 3 show ?thesis by (intro conjI)
qed

text \<open>
  C10 as stated fails: after \<open>process(previous_responses="x")\<close> the current task is the
  task with the rendered block; a following \<open>process(task="")\<close> overwrites it with the
  original task, although the task argument is empty.
\<close>

theorem empty_task_keeps_current_counterexample:
  "current_task_description
     (snd (process (collaborators (Inr [Some ''ok''])) (example_agent (Some ''T'')) None ''x''))
   = Some (''T'' @ [CHR 0x0A] @ ''Previous: x'')
   \<and> current_task_description
     (snd (process (collaborators (Inr [Some ''ok'']))
        (snd (process (collaborators (Inr [Some ''ok''])) (example_agent (Some ''T'')) None
           ''x''))
        (Some '''') ''''))
   = Some ''T''
   \<and> current_task_description
     (snd (process (collaborators (Inr [Some ''ok'']))
        (snd (process (collaborators (Inr [Some ''ok''])) (example_agent (Some ''T'')) None
           ''x''))
        (Some '''') ''''))
   \<noteq> current_task_description
     (snd (process (collaborators (Inr [Some ''ok''])) (example_agent (Some ''T'')) None ''x''))"
  by (simp add: process_def Let_def take_task_def incorporate_def get_response_tasks
      get_response_def
      example_agent_def attributes_def collaborators_def strip_def isspace_def)

subsection \<open>The model invocation\<close>

text \<open>
  C4. \<open>process\<close> calls the completion on the messages of the agent as it stands after
  the task and the previous responses are taken in. When that call raises, \<open>process\<close>
  returns \<open>None\<close> (the result type of \<open>process\<close> has no exception); when it returns a
  response, \<open>process\<close> returns the content of its first choice.
\<close>

theorem process_returns:
  assumes "a2 = incorporate ext (take_task a task) previous_responses"
    and "outcome =
         completion ext (model a2) (messages a2 (current_task_description a2)) (kwargs a2)"
  shows "(\<forall>msg. outcome = Inl msg \<longrightarrow> fst (process ext a task previous_responses) = None)
       \<and> (\<forall>content rest. outcome = Inr (content # rest)
             \<longrightarrow> fst (process ext a task previous_responses) = content)"
  using assms by (simp add: process_def Let_def get_response_def)

theorem process_returns_witness:
  "fst (process (collaborators (Inl ''timeout'')) (example_agent (Some ''Say hello'')) None '''')
     = None
   \<and> fst (process (collaborators (Inr [Some ''Hello!''])) (example_agent (Some ''Say hello''))
        None '''')
     = Some ''Hello!''"
  using process_returns [OF refl refl, of "collaborators (Inl ''timeout'')"
      "example_agent (Some ''Say hello'')" None "''''"]
    process_returns [OF refl refl, of "collaborators (Inr [Some ''Hello!''])"
      "example_agent (Some ''Say hello'')" None "''''"]
  by (simp add: collaborators_def)

text \<open>
  C5, as the code has it. A failed model invocation (the completion call raises) leaves
  the history of the agent as it was: only a successful invocation appends an entry.
\<close>

theorem failed_invocation_history:
  assumes "a2 = incorporate ext (take_task a task) previous_responses"
    and "completion ext (model a2) (messages a2 (current_task_description a2)) (kwargs a2)
         = Inl msg"
  shows "history (snd (process ext a task previous_responses)) = history a"
  using assms
  by (simp add: process_def Let_def get_response_def incorporate_def take_task_def set_task_def)

theorem failed_invocation_history_witness:
  "history (snd (process (collaborators (Inl ''timeout'')) (example_agent (Some ''Say hello''))
      (Some ''Say goodbye'') ''A: hello''))
   = history (example_agent (Some ''Say hello''))"
proof -
  have "completion (collaborators (Inl ''timeout'')) m ms kw = Inl ''timeout''" for m ms kw
    by (simp add: collaborators_def)
  then show ?thesis
    using failed_invocation_history [OF refl, of "collaborators (Inl ''timeout'')"
        "example_agent (Some ''Say hello'')" "Some ''Say goodbye''" "''A: hello''" "''timeout''"]
    by simp
qed

text \<open>
  C5 as stated fails: the completion call of this agent raises, and after \<open>process\<close> the
  history is still empty, with no entry for the failed invocation.
\<close>

theorem failed_invocation_recorded_counterexample:
  "completion (collaborators (Inl ''timeout'')) ''gpt-4o'' [(''user'', Some ''Say hello'')] []
     = Inl ''timeout''
   \<and> fst (process (collaborators (Inl ''timeout'')) (example_agent (Some ''Say hello'')) None '''')
     = None
   \<and> history (snd (process (collaborators (Inl ''timeout'')) (example_agent (Some ''Say hello''))
       None ''''))
     = []"
  by (simp add: process_def Let_def get_response_def incorporate_def take_task_def
      example_agent_def attributes_def collaborators_def messages_def)

subsection \<open>Construction\<close>

lemma validate_templates_error: "validate_templates a = Inl e \<Longrightarrow> e = TemplateAssertion"
  by (auto simp: validate_templates_def split: option.splits if_splits)

lemma row2persona_clauses_error:
  "row2persona_clauses ext row m = Inl e \<Longrightarrow> \<exists>msg. e = Raised msg"
proof (induction ext row m rule: row2persona_clauses.induct)
  case (1 ext row)
  then show ?case by simp
next
  case (2 ext row var d rest)
  then show ?case
    by (auto simp: Let_def split: option.splits sum.splits if_splits)
qed

lemma sample_persona_error:
  "sample_persona ext df m = Inl e \<Longrightarrow> \<not> is_AssertionError e"
  by (auto simp: sample_persona_def row2persona_def split: if_splits sum.splits option.splits
      dest: row2persona_clauses_error)

lemma filter_data_by_ideology_error:
  "filter_data_by_ideology d i = Inl e \<Longrightarrow> \<exists>e'. e = FilterAssertion e'"
  by (auto simp: filter_data_by_ideology_def ideo5_isin_def split: if_splits option.splits)

lemma generate_persona_error:
  "generate_persona ext a = Inl e \<Longrightarrow> e \<noteq> OnlyOneAssertion"
  unfolding generate_persona_def Let_def get_random_persona_def
  by (auto split: if_splits sum.splits option.splits
      dest: sample_persona_error filter_data_by_ideology_error)

lemma assign_persona_error:
  "assign_persona ext a = Inl e \<Longrightarrow> e \<noteq> OnlyOneAssertion"
  by (auto simp: assign_persona_def split: sum.splits dest: generate_persona_error)

lemma set_system_instructions_error:
  "set_system_instructions ext a = Inl e \<Longrightarrow> e \<noteq> OnlyOneAssertion"
  unfolding set_system_instructions_def render_system_instructions_def Let_def
  by (auto split: if_splits sum.splits option.splits dest: assign_persona_error)

lemma selectors_attributes:
  "selectors (attributes PM DS DF task ci ideo q m si pt p kw)
   = sum_list (map of_bool [truthy ideo, truthy q, truthy p, truthy si])"
  by (simp add: selectors_def attributes_def)

text \<open>
  C3. With \<open>a\<close> the attributes assigned from the arguments, \<open>selectors a\<close> counts the
  non-empty values among \<open>ideology\<close>, \<open>query_str\<close>, \<open>persona\<close> and \<open>system_instructions\<close>.
  With more than one, the constructor raises an \<open>AssertionError\<close> of its validation (the
  one on the selectors whenever the template is valid and the dataset and the mapping are
  loaded), and the model is not called: \<open>init\<close> has no completion call. With one or
  none, the constructor does not raise the error on the selectors.
\<close>

theorem construction_selectors:
  assumes "a = attributes PM DS DF task ci ideo q m si pt p kw"
  shows "selectors a = sum_list (map of_bool [truthy ideo, truthy q, truthy p, truthy si])
       \<and> (1 < selectors a \<longrightarrow>
            init ext PM DS DF task ci ideo q m si pt p kw
            \<in> {Inl TemplateAssertion, Inl DataMappingAssertion, Inl OnlyOneAssertion})
       \<and> (1 < selectors a \<and> validate_templates a = Inr () \<and> DS \<noteq> None \<and> PM \<noteq> None \<longrightarrow>
            init ext PM DS DF task ci ideo q m si pt p kw = Inl OnlyOneAssertion)
       \<and> (selectors a \<le> 1 \<longrightarrow>
            init ext PM DS DF task ci ideo q m si pt p kw \<noteq> Inl OnlyOneAssertion)"
proof (intro conjI impI)
  show "selectors a = sum_list (map of_bool [truthy ideo, truthy q, truthy p, truthy si])"
    using assms by (simp add: selectors_attributes)
next
  assume "1 < selectors a"
  then have "validate_system_instructions a = Inl DataMappingAssertion
      \<or> validate_system_instructions a = Inl OnlyOneAssertion"
    by (simp add: validate_system_instructions_def)
  moreover have "validate_templates a = Inl TemplateAssertion \<or> validate_templates a = Inr ()"
    by (cases "validate_templates a") (auto dest: validate_templates_error)
  ultimately show "init ext PM DS DF task ci ideo q m si pt p kw
            \<in> {Inl TemplateAssertion, Inl DataMappingAssertion, Inl OnlyOneAssertion}"
    using assms by (auto simp: init_def construct_def)
next
  assume h: "1 < selectors a \<and> validate_templates a = Inr () \<and> DS \<noteq> None \<and> PM \<noteq> None"
  with assms have "data a \<noteq> None" "persona_mapping a \<noteq> None"
    by (simp_all add: attributes_def)
  with h have "validate_system_instructions a = Inl OnlyOneAssertion"
    by (simp add: validate_system_instructions_def)
  with h assms show "init ext PM DS DF task ci ideo q m si pt p kw = Inl OnlyOneAssertion"
    by (simp add: init_def construct_def)
next
  assume le: "selectors a \<le> 1"
  show "init ext PM DS DF task ci ideo q m si pt p kw \<noteq> Inl OnlyOneAssertion"
  proof
    assume "init ext PM DS DF task ci ideo q m si pt p kw = Inl OnlyOneAssertion"
    with assms have c: "construct ext a = Inl OnlyOneAssertion"
      by (simp add: init_def)
    from le have "validate_system_instructions a \<noteq> Inl OnlyOneAssertion"
      by (simp add: validate_system_instructions_def)
    with c show False
      by (auto simp: construct_def split: sum.splits
          dest: validate_templates_error set_system_instructions_error)
  qed
qed

theorem construction_selectors_witness:
  "init (collaborators (Inr [Some ''ok''])) (Some example_mapping) (Some example_dataset)
     example_defaults None None (Some ''liberal'') None ''gpt-4o'' None (Some ''default'')
     (Some ''x'') None
   = Inl OnlyOneAssertion
   \<and> init (collaborators (Inr [Some ''ok''])) (Some example_mapping) (Some example_dataset)
       example_defaults None None None None ''gpt-4o'' None (Some ''default'')
       (Some ''x'') None
     \<noteq> Inl OnlyOneAssertion"
  using construction_selectors [OF refl, where ext = "collaborators (Inr [Some ''ok''])"
      and PM = "Some example_mapping" and DS = "Some example_dataset"
      and DF = example_defaults and task = None and ci = None and ideo = "Some ''liberal''"
      and q = None and m = "''gpt-4o''" and si = None and pt = "Some ''default''"
      and p = "Some ''x''" and kw = None]
    construction_selectors [OF refl, where ext = "collaborators (Inr [Some ''ok''])"
      and PM = "Some example_mapping" and DS = "Some example_dataset"
      and DF = example_defaults and task = None and ci = None and ideo = None
      and q = None and m = "''gpt-4o''" and si = None and pt = "Some ''default''"
      and p = "Some ''x''" and kw = None]
  by (simp add: selectors_attributes validate_templates_def attributes_def example_defaults_def)

subsection \<open>Persona resolution\<close>

lemma validate_system_instructions_ok:
  "validate_system_instructions a = Inr () \<Longrightarrow> selectors a \<le> 1"
  by (auto simp: validate_system_instructions_def split: if_splits)

lemma generate_persona_empty:
  assumes "persona a \<noteq> Some ''random''"
    and "(truthy (ideology a)
          \<and> filter_data_by_ideology (data a) (str_of (ideology a)) = Inr filtered)
       \<or> (\<not> truthy (ideology a) \<and> truthy (query_str a) \<and> data a = Some df
          \<and> query ext df (str_of (query_str a)) = Inr filtered)"
    and "empty filtered"
  shows "generate_persona ext a = Inl NoDataAssertion"
  using assms by (auto simp: generate_persona_def Let_def)

text \<open>
  C8. When the validation of the constructor passes, no system instructions are given
  and the persona is resolved from an ideology bucket or from a query string, an empty
  filtered subset makes the constructor raise the \<open>AssertionError\<close> "No data found
  satisfying conditions": the construction fails, no persona is made up, and no model
  call takes place.
\<close>

theorem construction_no_matching_rows:
  assumes "a = attributes PM DS DF task ci ideo q m None pt p kw"
    and "validate_templates a = Inr ()"
    and "validate_system_instructions a = Inr ()"
    and "(truthy ideo \<and> filter_data_by_ideology DS (str_of ideo) = Inr filtered)
       \<or> (truthy q \<and> DS = Some df \<and> query ext df (str_of q) = Inr filtered)"
    and "empty filtered"
  shows "init ext PM DS DF task ci ideo q m None pt p kw = Inl NoDataAssertion"
proof -
  from assms(3) have "selectors a \<le> 1"
    by (rule validate_system_instructions_ok)
  with assms(1) have le: "of_bool (truthy ideo) + of_bool (truthy q) + of_bool (truthy p) \<le> (1::nat)"
    by (simp add: selectors_attributes)
  from assms(4) have iq: "truthy ideo \<or> truthy q" by blast
  with le have np: "\<not> truthy p" by (auto simp: of_bool_def split: if_splits)
  then have nr: "p \<noteq> Some ''random''" by auto
  have sel: "(truthy (ideology a)
          \<and> filter_data_by_ideology (data a) (str_of (ideology a)) = Inr filtered)
       \<or> (\<not> truthy (ideology a) \<and> truthy (query_str a) \<and> data a = Some df
          \<and> query ext df (str_of (query_str a)) = Inr filtered)"
    using assms(1,4) le by (auto simp: attributes_def of_bool_def split: if_splits)
  have "generate_persona ext a = Inl NoDataAssertion"
    using nr assms(1) by (intro generate_persona_empty [OF _ sel assms(5)]) (simp add: attributes_def)
  then have "assign_persona ext a = Inl NoDataAssertion"
    by (simp add: assign_persona_def)
  moreover have "system_instructions a = None" "persona a = p" "truthy (ideology a) \<or> truthy (query_str a)"
    using assms(1) iq by (simp_all add: attributes_def)
  ultimately have "set_system_instructions ext a = Inl NoDataAssertion"
    using np nr by (auto simp: set_system_instructions_def)
  with assms(1,2,3) show ?thesis
    by (simp add: init_def construct_def)
qed

theorem construction_no_matching_rows_witness:
  "init (collaborators (Inr [Some ''ok''])) (Some example_mapping) (Some example_dataset)
     example_defaults None None (Some ''moderate'') None ''gpt-4o'' None (Some ''default'')
     None None
   = Inl NoDataAssertion
   \<and> init (collaborators (Inr [Some ''ok''])) (Some example_mapping) (Some example_dataset)
     example_defaults None None None (Some ''age > 200'') ''gpt-4o'' None (Some ''default'')
     None None
   = Inl NoDataAssertion"
proof -
  let ?ext = "collaborators (Inr [Some ''ok'']) :: nat externals"
  let ?a = "\<lambda>ideo q. attributes (Some example_mapping) (Some example_dataset) example_defaults
      None None ideo q ''gpt-4o'' None (Some ''default'') None None :: nat agent"
  have t: "validate_templates (?a ideo q) = Inr ()" for ideo q
    by (simp add: validate_templates_def attributes_def example_defaults_def)
  have v1: "validate_system_instructions (?a (Some ''moderate'') None) = Inr ()"
    by (simp add: validate_system_instructions_def attributes_def selectors_def allowed_vals_def)
  have v2: "validate_system_instructions (?a None (Some ''age > 200'')) = Inr ()"
    by (simp add: validate_system_instructions_def attributes_def selectors_def)
  have f: "filter_data_by_ideology (Some example_dataset) ''moderate''
           = Inr (example_dataset\<lparr>rows := []\<rparr>)"
    by (simp add: filter_data_by_ideology_def lower_allowed_vals ideo5_isin_def
        example_dataset_def cell_at_def)
  have q: "query ?ext example_dataset ''age > 200'' = Inr (example_dataset\<lparr>rows := []\<rparr>)"
    by (simp add: collaborators_def)
  have e: "empty (example_dataset\<lparr>rows := []\<rparr>)"
    by (simp add: empty_def)
  have 1: "init ?ext (Some example_mapping) (Some example_dataset)
     example_defaults None None (Some ''moderate'') None ''gpt-4o'' None (Some ''default'')
     None None = Inl NoDataAssertion"
    by (rule construction_no_matching_rows [OF refl t v1 _ e]) (simp add: f)
  have 2: "init ?ext (Some example_mapping) (Some example_dataset)
     example_defaults None None None (Some ''age > 200'') ''gpt-4o'' None (Some ''default'')
     None None = Inl NoDataAssertion"
    by (rule construction_no_matching_rows [OF refl t v2 _ e, where df = example_dataset])
      (simp add: q)
  from 1 2 show ?thesis by (rule conjI)
qed

lemma generate_persona_template:
  "generate_persona ext a = Inr (p, a') \<Longrightarrow> persona_template a' = map_of (defaults a) ''anes''"
  unfolding generate_persona_def Let_def
  by (auto split: if_splits sum.splits option.splits)

text \<open>
  C6 against the code. \<open>Agent(ideology="liberal", persona_template="empathetic")\<close>: the
  system instructions are rendered from the \<open>anes\<close> preset, not from the template that
  was passed, since \<open>_generate_persona\<close> assigns \<open>persona_template\<close>. With a literal
  persona, \<open>Agent(persona="a voter", persona_template="empathetic")\<close>, the template that
  was passed is the one rendered.
\<close>

theorem supplied_template_overridden:
  "map_sum id system_instructions
     (init (collaborators (Inr [Some ''ok''])) (Some example_mapping) (Some example_dataset)
        example_defaults None None (Some ''liberal'') None ''gpt-4o'' None
        (Some ''empathetic'') None None)
   = Inr (Some ''ANES: Your ideology is liberal.'')
   \<and> map_sum id system_instructions
     (init (collaborators (Inr [Some ''ok''])) (Some example_mapping) (Some example_dataset)
        example_defaults None None None None ''gpt-4o'' None
        (Some ''empathetic'') (Some ''a voter'') None)
   = Inr (Some ''EMPATHETIC: a voter'')"
  by code_simp

subsection \<open>The loaded dataset\<close>

lemma cell_at_set_item: "k \<noteq> c \<Longrightarrow> cell_at (set_item k v r) c = cell_at r c"
  by (induction r) (auto simp: cell_at_def)

lemma dropna_weight_rows:
  "dropna_weight csv = Inr d \<Longrightarrow> r \<in> set (rows d)
   \<Longrightarrow> r \<in> set (rows csv) \<and> cell_at r ''weight'' \<noteq> CNaN"
  by (auto simp: dropna_weight_def split: if_splits)

lemma set_age_rows:
  assumes "set_age rsub d = Inr df" and "r' \<in> set (rows df)"
  shows "\<exists>r\<in>set (rows d). cell_at r' ''weight'' = cell_at r ''weight''"
proof -
  from assms(1) obtain age where "rows df = map2 (set_item ''age'') age (rows d)"
    by (auto simp: set_age_def split: if_splits sum.splits)
  with assms(2) obtain v r where "r \<in> set (rows d)" and "r' = set_item ''age'' v r"
    by (auto dest: set_zip_rightD)
  then show ?thesis
    by (auto simp: cell_at_set_item)
qed

lemma filter_data_by_ideology_rows:
  "filter_data_by_ideology (Some df) bucket = Inr filtered
   \<Longrightarrow> set (rows filtered) \<subseteq> set (rows df)"
  by (auto simp: filter_data_by_ideology_def ideo5_isin_def DataFrame_def split: if_splits)

text \<open>
  C9. The file has the rows of the specification: a weight that is missing or above 0.
  After \<open>_load_global_anes_data\<close> every retained row has a weight above 0, since the
  rows without a weight are dropped and the \<open>age\<close> column leaves the weights as they are.
  A draw returns a row of the frame it draws from, and a query rows of the frame it
  filters; so every row that a sampling operation of \<open>_generate_persona\<close> selects (from
  the whole dataset, from a subset filtered by ideology, from the result of a query) has
  a weight above 0.
\<close>

theorem loaded_weights_positive:
  assumes "list_all PersonaRecord (rows csv)"
    and "load_global_anes_data rsub csv = Inr df"
    and "\<And>F r. sample ext F = Inr r \<Longrightarrow> r \<in> set (rows F)"
    and "\<And>q F. query ext df q = Inr F \<Longrightarrow> set (rows F) \<subseteq> set (rows df)"
  shows "(\<forall>r\<in>set (rows df). positive (cell_at r ''weight''))
       \<and> (\<forall>r. sample ext df = Inr r \<longrightarrow> positive (cell_at r ''weight''))
       \<and> (\<forall>bucket F r. filter_data_by_ideology (Some df) bucket = Inr F \<longrightarrow> sample ext F = Inr r
            \<longrightarrow> positive (cell_at r ''weight''))
       \<and> (\<forall>q F r. query ext df q = Inr F \<longrightarrow> sample ext F = Inr r
            \<longrightarrow> positive (cell_at r ''weight''))"
proof -
  from assms(2) obtain d where d: "dropna_weight csv = Inr d" and s: "set_age rsub d = Inr df"
    by (auto simp: load_global_anes_data_def split: sum.splits)
  have inv: "positive (cell_at r' ''weight'')" if "r' \<in> set (rows df)" for r'
  proof -
    from set_age_rows [OF s that] obtain r
      where r: "r \<in> set (rows d)" and eq: "cell_at r' ''weight'' = cell_at r ''weight''"
      by blast
    from dropna_weight_rows [OF d r] have "r \<in> set (rows csv)" and "cell_at r ''weight'' \<noteq> CNaN"
      by simp_all
    moreover from assms(1) \<open>r \<in> set (rows csv)\<close> have "PersonaRecord r"
      by (simp add: list_all_iff)
    ultimately have "positive (cell_at r ''weight'')"
      by (simp add: PersonaRecord_def)
    with eq show ?thesis by simp
  qed
  have 1: "\<forall>r\<in>set (rows df). positive (cell_at r ''weight'')"
    using inv by blast
  have 2: "\<forall>r. sample ext df = Inr r \<longrightarrow> positive (cell_at r ''weight'')"
    using inv assms(3) by blast
  have 3: "\<forall>bucket F r. filter_data_by_ideology (Some df) bucket = Inr F \<longrightarrow> sample ext F = Inr r
            \<longrightarrow> positive (cell_at r ''weight'')"
    using inv assms(3) filter_data_by_ideology_rows by blast
  have 4: "\<forall>q F r. query ext df q = Inr F \<longrightarrow> sample ext F = Inr r
            \<longrightarrow> positive (cell_at r ''weight'')"
    using inv assms(3,4) by blast
  from 1 2 3 4 show ?thesis by (intro conjI)
qed

theorem loaded_weights_positive_witness:
  "load_global_anes_data example_rsub example_csv = Inr example_dataset
   \<and> length (rows example_csv) = 3
   \<and> length (rows example_dataset) = 2
   \<and> positive (cell_at (rows example_dataset ! 0) ''weight'')
   \<and> positive (cell_at (rows example_dataset ! 1) ''weight'')
   \<and> sample (collaborators (Inr [Some ''ok''])) example_dataset = Inr (rows example_dataset ! 0)"
proof -
  let ?ext = "collaborators (Inr [Some ''ok'']) :: nat externals"
  have csv: "list_all PersonaRecord (rows example_csv)"
    by (simp add: example_csv_def PersonaRecord_def cell_at_def)
  have l: "load_global_anes_data example_rsub example_csv = Inr example_dataset"
    by (simp add: load_global_anes_data_def dropna_weight_def set_age_def example_rsub_def
        example_csv_def example_dataset_def cell_at_def)
  have draw: "r \<in> set (rows F)" if "sample ?ext F = Inr r" for F r
  proof -
    from that obtain rest
      where "filter (\<lambda>r. positive (cell_at r ''weight'')) (rows F) = r # rest"
      by (auto simp: collaborators_def split: list.splits)
    then have "r \<in> set (filter (\<lambda>r. positive (cell_at r ''weight'')) (rows F))"
      by simp
    then show ?thesis by simp
  qed
  have filt: "set (rows F) \<subseteq> set (rows example_dataset)"
    if "query ?ext example_dataset q = Inr F" for q F
    using that by (auto simp: collaborators_def)
  note t = loaded_weights_positive [OF csv l draw filt]
  have s: "sample ?ext example_dataset = Inr (rows example_dataset ! 0)"
    by (simp add: collaborators_def example_dataset_def cell_at_def)
  have "\<forall>r\<in>set (rows example_dataset). positive (cell_at r ''weight'')"
    using t by (rule conjunct1)
  then have 0: "positive (cell_at (rows example_dataset ! 0) ''weight'')"
    and 1: "positive (cell_at (rows example_dataset ! 1) ''weight'')"
    by (simp_all add: example_dataset_def)
  have n: "length (rows example_csv) = 3" "length (rows example_dataset) = 2"
    by (simp_all add: example_csv_def example_dataset_def)
  from l n 0 1 s show ?thesis by (intro conjI)
qed

end
